theory Spec2Isabelle
  imports Main
begin

section \<open>Python string primitives used by both front ends\<close>

text \<open>
  A Python \<open>str\<close> is modelled as a \<open>string\<close>; every \<open>char\<close> stands for one code point
  in the range U+0000 .. U+00FF. The predicates below are the restrictions of
  \<open>str.isspace\<close> and of the line boundaries of \<open>str.splitlines\<close> to that range.
\<close>

definition py_isspace :: "char \<Rightarrow> bool" where
  "py_isspace c = (c \<in> set [CHR 0x09, CHR 0x0A, CHR 0x0B, CHR 0x0C, CHR 0x0D,
                            CHR 0x1C, CHR 0x1D, CHR 0x1E, CHR 0x1F, CHR 0x20,
                            CHR 0x85, CHR 0xA0])"

definition py_linebreak :: "char \<Rightarrow> bool" where
  "py_linebreak c = (c \<in> set [CHR 0x0A, CHR 0x0B, CHR 0x0C, CHR 0x0D,
                              CHR 0x1C, CHR 0x1D, CHR 0x1E, CHR 0x85])"

text \<open>\<open>s.strip()\<close>: whitespace removed at both ends.\<close>

definition strip :: "string \<Rightarrow> string" where
  "strip s = rev (dropWhile py_isspace (rev (dropWhile py_isspace s)))"

text \<open>\<open>s.split(sep)\<close> for a one-character separator: never an empty list.\<close>

fun split_chr :: "char \<Rightarrow> string \<Rightarrow> string list" where
  "split_chr sep [] = [] # []"
| "split_chr sep (c # cs) =
     (if c = sep then [] # split_chr sep cs
      else (case split_chr sep cs of
              [] \<Rightarrow> [c] # []
            | p # ps \<Rightarrow> (c # p) # ps))"

text \<open>
  \<open>s.splitlines()\<close>: the text between line boundaries, \<open>\r\n\<close> counting as one boundary,
  no empty last line after a final boundary. The first argument is the line being read,
  reversed.
\<close>

fun splitlines_from :: "string \<Rightarrow> string \<Rightarrow> string list" where
  "splitlines_from cur [] = (if cur = [] then [] else [rev cur])"
| "splitlines_from cur (c # cs) =
     (if c = CHR 0x0D then
        (case cs of
           [] \<Rightarrow> [rev cur]
         | d # ds \<Rightarrow> if d = CHR 0x0A then rev cur # splitlines_from [] ds
                    else rev cur # splitlines_from [] (d # ds))
      else if py_linebreak c then rev cur # splitlines_from [] cs
      else splitlines_from (c # cur) cs)"

definition splitlines :: "string \<Rightarrow> string list" where
  "splitlines s = splitlines_from [] s"

text \<open>\<open>s.replace(old, new)\<close> for a one-character \<open>old\<close>.\<close>

definition replace_chr :: "char \<Rightarrow> string \<Rightarrow> string \<Rightarrow> string" where
  "replace_chr old new s = concat (map (\<lambda>c. if c = old then new else [c]) s)"

text \<open>\<open>sep.join(xs)\<close>.\<close>

fun join :: "string \<Rightarrow> string list \<Rightarrow> string" where
  "join sep [] = []"
| "join sep [x] = x"
| "join sep (x # y # ys) = x @ sep @ join sep (y # ys)"

section \<open>Result Parser\<close>

text \<open>
  \<open>parse_selection\<close> of \<^verbatim>\<open>yoink.py\<close> (lines 215-221) and of \<^verbatim>\<open>seeker.py\<close>
  (lines 287-293), each translated from its own source. The result is the pair
  (path, line); \<open>None\<close> is Python's \<open>None\<close>.
\<close>

definition yoink_parse_selection :: "string \<Rightarrow> bool \<Rightarrow> string option \<times> string option" where
  "yoink_parse_selection raw_selection is_content_search =
     (if raw_selection = [] then (None, None)
      else let parts = split_chr CHR '':'' raw_selection in
        if is_content_search \<and> 2 \<le> length parts then (Some (parts ! 0), Some (parts ! 1))
        else (Some (strip raw_selection), None))"

definition seeker_parse_selection :: "string \<Rightarrow> bool \<Rightarrow> string option \<times> string option" where
  "seeker_parse_selection raw_selection is_content_search =
     (if raw_selection = [] then (None, None)
      else let parts = split_chr CHR '':'' raw_selection in
        if is_content_search \<and> 2 \<le> length parts then (Some (parts ! 0), Some (parts ! 1))
        else (Some (strip raw_selection), None))"

text \<open>
  What the specification calls a valid integer, for a line-number field: an optional
  sign followed by one or more decimal digits, surrounding whitespace ignored.
\<close>

definition is_digit :: "char \<Rightarrow> bool" where
  "is_digit c = (c \<in> set ''0123456789'')"

definition int_literal :: "string \<Rightarrow> bool" where
  "int_literal s =
     (let t = strip s;
          d = (case t of [] \<Rightarrow> [] | c # r \<Rightarrow> if c = CHR ''+'' \<or> c = CHR ''-'' then r else t)
      in d \<noteq> [] \<and> list_all is_digit d)"

section \<open>Paths (\<open>os.path\<close> on a POSIX host)\<close>

text \<open>
  The functions of \<open>posixpath\<close> that \<open>open_file\<close> calls. On Windows \<open>os.path\<close> is a
  different module; the path computations below are those of the POSIX one.
\<close>

definition isabs :: "string \<Rightarrow> bool" where
  "isabs p = (take 1 p = ''/'')"

definition path_join :: "string \<Rightarrow> string \<Rightarrow> string" where
  "path_join a b =
     (if isabs b then b
      else if a = [] \<or> last a = CHR ''/'' then a @ b
      else a @ ''/'' @ b)"

fun normpath_comps :: "nat \<Rightarrow> string list \<Rightarrow> string list \<Rightarrow> string list" where
  "normpath_comps initial_slashes new_comps [] = new_comps"
| "normpath_comps initial_slashes new_comps (part # comps) =
     (if part = [] \<or> part = ''.'' then normpath_comps initial_slashes new_comps comps
      else if part \<noteq> ''..'' \<or> (initial_slashes = 0 \<and> new_comps = [])
                \<or> (new_comps \<noteq> [] \<and> last new_comps = ''..'')
        then normpath_comps initial_slashes (new_comps @ [part]) comps
      else if new_comps \<noteq> [] then normpath_comps initial_slashes (butlast new_comps) comps
      else normpath_comps initial_slashes new_comps comps)"

definition normpath :: "string \<Rightarrow> string" where
  "normpath path =
     (if path = [] then ''.''
      else
        let initial_slashes =
              (if take 1 path = ''/''
               then (if take 2 path = ''//'' \<and> take 3 path \<noteq> ''///'' then 2 else 1)
               else (0::nat));
            comps = normpath_comps initial_slashes [] (split_chr CHR ''/'' path);
            joined = replicate initial_slashes CHR ''/'' @ join ''/'' comps
        in if joined = [] then ''.'' else joined)"

definition dirname :: "string \<Rightarrow> string" where
  "dirname p =
     (let head = rev (dropWhile (\<lambda>c. c \<noteq> CHR ''/'') (rev p))
      in if head \<noteq> [] \<and> head \<noteq> replicate (length head) CHR ''/''
         then rev (dropWhile (\<lambda>c. c = CHR ''/'') (rev head))
         else head)"

section \<open>The host: environment, world and blocking calls\<close>

text \<open>
  What the program reads from its host and cannot change: which commands \<open>shutil.which\<close>
  finds, which programs can be started (a missing one raises \<open>FileNotFoundError\<close>), the
  working directory, the home directory that \<open>expanduser\<close> substitutes for \<open>~\<close>, the
  platform name, the \<open>EDITOR\<close> variable, and whether the operating system refuses to
  remove, open or write the handoff file.
\<close>

datatype write_outcome = WriteOk | OpenFails | WriteFails

record env =
  which :: "string \<Rightarrow> bool"
  can_exec :: "string \<Rightarrow> bool"
  getcwd :: string
  home :: string
  platform_system :: string
  EDITOR :: "string option"
  remove_fails :: bool
  handoff_write :: write_outcome
  startfile_fails :: bool
  strerror :: string

text \<open>Everything the program does to its host, in order.\<close>

datatype effect =
    Print string
  | RPrint string
  | RPanel string string
  | ClearScreen
  | Ask string
  | Shell string
  | Run "string list"
  | StartFile string

text \<open>
  A blocking call (the query prompt, the search pipeline, a child process the program waits
  for) ends with what the operator does next: an answer, or an interrupt signal. The
  \<open>operator\<close> field holds the operator's coming responses; when it is empty the program
  is still blocked.
\<close>

datatype response = Answer string | Interrupt

record world =
  files :: "string \<rightharpoonup> string"
  log :: "effect list"
  operator :: "response list"

datatype exn = KeyboardInterrupt | FileNotFoundError

text \<open>
  How a call ends: it returns a value, raises, leaves the process through \<open>sys.exit\<close>, or
  is still blocked.
\<close>

datatype 'a res = Ret 'a | Raised exn | Exited nat | Starved

datatype wait = Got string | Interrupted | Blocked

definition block :: "world \<Rightarrow> wait \<times> world" where
  "block w =
     (case operator w of
        [] \<Rightarrow> (Blocked, w)
      | Answer s # rs \<Rightarrow> (Got s, w\<lparr>operator := rs\<rparr>)
      | Interrupt # rs \<Rightarrow> (Interrupted, w\<lparr>operator := rs\<rparr>))"

definition say :: "effect \<Rightarrow> world \<Rightarrow> world" where
  "say e w = w\<lparr>log := log w @ [e]\<rparr>"

text \<open>
  \<open>subprocess.run(argv)\<close> and \<open>subprocess.call(argv)\<close> with the exit status ignored:
  \<open>FileNotFoundError\<close> when the program cannot be started, otherwise the child runs and
  the caller waits for it.
\<close>

definition run_child :: "env \<Rightarrow> string \<Rightarrow> string list \<Rightarrow> world \<Rightarrow> unit res \<times> world" where
  "run_child e prog args w =
     (if \<not> can_exec e prog then (Raised FileNotFoundError, w)
      else (case block (say (Run (prog # args)) w) of
              (Got _, w') \<Rightarrow> (Ret (), w')
            | (Interrupted, w') \<Rightarrow> (Raised KeyboardInterrupt, w')
            | (Blocked, w') \<Rightarrow> (Starved, w')))"

text \<open>
  \<open>try: subprocess.run(argv)\<close> followed by an \<open>except\<close> clause that catches the failure
  to start the program and reports it. \<open>KeyboardInterrupt\<close> is not an \<open>Exception\<close> and
  passes through.
\<close>

definition try_run :: "env \<Rightarrow> string \<Rightarrow> string list \<Rightarrow> effect \<Rightarrow> world \<Rightarrow> unit res \<times> world" where
  "try_run e prog args report w =
     (case run_child e prog args w of
        (Raised FileNotFoundError, w') \<Rightarrow> (Ret (), say report w')
      | r \<Rightarrow> r)"

text \<open>
  \<open>os.path.expanduser\<close> and \<open>os.path.abspath\<close>. Of \<open>expanduser\<close> the form that the program
  uses is resolved, a path that starts with \<open>~/\<close>: the home directory without its final
  slashes takes the place of \<open>~\<close>.
\<close>

definition expanduser :: "env \<Rightarrow> string \<Rightarrow> string" where
  "expanduser e p =
     (if take 1 p = ''~'' \<and> (length p = 1 \<or> take 2 p = ''~/'')
      then (let r = rev (dropWhile (\<lambda>c. c = CHR ''/'') (rev (home e))) @ drop 1 p
            in if r = [] then ''/'' else r)
      else p)"

definition abspath :: "env \<Rightarrow> string \<Rightarrow> string" where
  "abspath e path = normpath (if isabs path then path else path_join (getcwd e) path)"

section \<open>Configuration\<close>

text \<open>
  \<open>SearchConfig\<close>: both files declare the same five fields; the defaults differ.
\<close>

record SearchConfig =
  mode :: string
  case_sensitive :: bool
  hidden_files :: bool
  editor :: string
  initial_query :: string

definition yoink_SearchConfig :: SearchConfig where
  "yoink_SearchConfig =
     \<lparr>mode = ''filename'', case_sensitive = False, hidden_files = False,
      editor = ''cd'', initial_query = ''''\<rparr>"

definition seeker_SearchConfig :: SearchConfig where
  "seeker_SearchConfig =
     \<lparr>mode = ''filename'', case_sensitive = False, hidden_files = True,
      editor = ''vim'', initial_query = ''''\<rparr>"

definition BINARY_DEPENDENCIES :: "string list" where
  "BINARY_DEPENDENCIES = [''fzf'', ''rg'', ''bat'']"

text \<open>The loop of \<open>check_dependencies\<close> that collects the missing tools.\<close>

fun missing_deps :: "env \<Rightarrow> string list \<Rightarrow> string list" where
  "missing_deps e [] = []"
| "missing_deps e (dep # deps) =
     (if \<not> which e dep then
        (if dep = ''bat'' \<and> which e ''batcat'' then missing_deps e deps
         else dep # missing_deps e deps)
      else missing_deps e deps)"

definition get_bat_command :: "env \<Rightarrow> string" where
  "get_bat_command e =
     (if which e ''bat'' then ''bat'' else if which e ''batcat'' then ''batcat'' else ''bat'')"

text \<open>\<open>f"{filepath}:{line_number}" if line_number else filepath\<close>.\<close>

definition with_line :: "string \<Rightarrow> string option \<Rightarrow> string" where
  "with_line filepath line_number =
     (case line_number of
        None \<Rightarrow> filepath
      | Some l \<Rightarrow> if l = [] then filepath else filepath @ '':'' @ l)"

definition vim_args :: "string \<Rightarrow> string option \<Rightarrow> string list" where
  "vim_args filepath line_number =
     (case line_number of
        None \<Rightarrow> [filepath]
      | Some l \<Rightarrow> if l = [] then [filepath] else [''+'' @ l, filepath])"

definition ESC :: string where
  "ESC = [CHR 0x1B]"

section \<open>The looping front end (\<^verbatim>\<open>yoink.py\<close>)\<close>

definition yoink_check_dependencies :: "env \<Rightarrow> world \<Rightarrow> unit res \<times> world" where
  "yoink_check_dependencies e w =
     (let missing = missing_deps e BINARY_DEPENDENCIES in
      if missing \<noteq> [] then
        (Exited 1,
         say (RPrint ''Please install them using your package manager (brew, apt, winget, etc.).'')
           (say (RPrint (''The following tools are required in PATH: [yellow]''
                          @ join '', '' missing @ ''[/yellow]''))
             (say (RPrint ''[bold red]Error: Missing Binary Dependencies[/bold red]'') w)))
      else (Ret (), w))"

subsection \<open>Dispatch Actions: \<open>open_file\<close>\<close>

definition yoink_open_file ::
  "env \<Rightarrow> string \<Rightarrow> string option \<Rightarrow> string \<Rightarrow> world \<Rightarrow> unit res \<times> world" where
  "yoink_open_file e filepath line_number editor_name w =
     (if editor_name = ''print'' then (Ret (), say (Print (with_line filepath line_number)) w)
      else if editor_name = ''cd'' then
        (let folder_path = dirname (abspath e filepath);
             target_file = expanduser e ''~/.yoink_last_path''
         in case handoff_write e of
              WriteOk \<Rightarrow> (Ret (), w\<lparr>files := (files w)(target_file \<mapsto> folder_path)\<rparr>)
            | OpenFails \<Rightarrow>
                (Ret (), say (RPrint (''[bold red]Error writing to '' @ target_file @ '': ''
                                       @ strerror e @ ''[/bold red]'')) w)
            | WriteFails \<Rightarrow>
                (Ret (), say (RPrint (''[bold red]Error writing to '' @ target_file @ '': ''
                                       @ strerror e @ ''[/bold red]''))
                           (w\<lparr>files := (files w)(target_file \<mapsto> [])\<rparr>)))
      else if editor_name = ''folder'' then
        (let folder_path = dirname (abspath e filepath);
             report = RPrint (''[bold red]Error opening folder: '' @ strerror e @ ''[/bold red]'')
         in if platform_system e = ''Windows'' then
              (if startfile_fails e then (Ret (), say report w)
               else (Ret (), say (StartFile folder_path) w))
            else if platform_system e = ''Darwin'' then try_run e ''open'' [folder_path] report w
            else try_run e ''xdg-open'' [folder_path] report w)
      else if editor_name = ''vscode'' then
        try_run e ''code'' [''-g'', with_line filepath line_number]
          (RPrint ''[bold red]Error: 'code' command not found.[/bold red]'') w
      else if editor_name = ''sublime'' then
        try_run e ''subl'' [with_line filepath line_number]
          (RPrint ''[bold red]Error: 'subl' command not found. Install Sublime Text CLI.[/bold red]'')
          w
      else if editor_name = ''vim'' then
        (let vim_cmd = (case EDITOR e of None \<Rightarrow> ''vim'' | Some v \<Rightarrow> v)
         in try_run e vim_cmd (vim_args filepath line_number)
              (RPrint (''[bold red]Error: '' @ vim_cmd @ '' not found.[/bold red]'')) w)
      else (Ret (), w))"

subsection \<open>Command Builder and Selector Driver: \<open>run_fzf\<close>\<close>

record pipeline =
  source_cmd :: string
  fzf_cmd :: "string list"
  is_content :: bool

definition quote_escape :: string where
  "quote_escape = [CHR 0x27, CHR 0x5C, CHR 0x27, CHR 0x27]"

definition yoink_controls :: string where
  "yoink_controls =
     ''ACTIONS: Enter(CD) | ^V(Vim) | ^X(Code) | ^T(Subl) | ^O(Explorer)\<newline>''
     @ ''TOGGLES: ^F(Files) | ^G(New Search) | ^S(Case) | ^H(Hidden)''"

definition yoink_status_line :: "SearchConfig \<Rightarrow> string" where
  "yoink_status_line config =
     (let C_GREEN = ESC @ ''[1;32m''; C_YELLOW = ESC @ ''[1;33m'';
          C_DIM = ESC @ ''[2m''; C_RESET = ESC @ ''[0m'';
          mode_status = (if mode config = ''filename'' then C_GREEN @ ''[FILES]'' @ C_RESET
                         else C_GREEN @ ''[CONTENT]'' @ C_RESET);
          case_status = (if case_sensitive config then C_YELLOW @ ''[CASE:SENSITIVE]'' @ C_RESET
                         else C_DIM @ ''[CASE:SMART]'' @ C_RESET);
          hidden_status = (if hidden_files config then C_YELLOW @ ''[HIDDEN:ON]'' @ C_RESET
                           else C_DIM @ ''[HIDDEN:OFF]'' @ C_RESET)
      in mode_status @ ''  '' @ case_status @ ''  '' @ hidden_status)"

definition yoink_fzf_cmd :: "SearchConfig \<Rightarrow> string \<Rightarrow> string \<Rightarrow> string \<Rightarrow> string list" where
  "yoink_fzf_cmd config prompt_str preview_cmd preview_opts =
     [''fzf'', ''--ansi'', ''--delimiter'', '':'', ''--height'', ''95%'',
      ''--layout'', ''reverse'', ''--border'',
      ''--prompt'', prompt_str,
      ''--header'', yoink_status_line config @ ''\<newline>'' @ yoink_controls,
      ''--expect=ctrl-v,ctrl-x,ctrl-o,ctrl-t,ctrl-f,ctrl-g,ctrl-s,ctrl-h'',
      ''--preview'', preview_cmd,
      ''--preview-window'', preview_opts]"

definition yoink_build :: "SearchConfig \<Rightarrow> string \<Rightarrow> pipeline" where
  "yoink_build config bat_exe =
     (if mode config = ''filename'' then
        (let hidden_flag = (if hidden_files config then ''--hidden'' else '''')
         in \<lparr>source_cmd = ''rg --files '' @ hidden_flag @ '' --glob '!.git/*'' @ [CHR 0x27],
             fzf_cmd = yoink_fzf_cmd config ''FILES> ''
                         (bat_exe @ '' --style=numbers --color=always {}'') ''right:60%:wrap'',
             is_content = False\<rparr>)
      else
        (let hidden_flag = (if hidden_files config then ''--hidden'' else '''');
             case_flag = (if case_sensitive config then ''--case-sensitive'' else ''--smart-case'');
             query = (if initial_query config \<noteq> [] then initial_query config else ''.'');
             query = replace_chr (CHR 0x27) quote_escape query
         in \<lparr>source_cmd = ''rg --line-number --no-heading --color=always '' @ hidden_flag
                            @ '' '' @ case_flag @ '' '' @ [CHR 0x27] @ query @ [CHR 0x27],
             fzf_cmd = yoink_fzf_cmd config (''RG:'' @ [CHR 0x27] @ initial_query config @ [CHR 0x27] @ ''> '')
                         (bat_exe @ '' --style=numbers --color=always --highlight-line {2} {1}'')
                         ''right:60%:wrap:+{2}-/2'',
             is_content = True\<rparr>))"

text \<open>
  The pipeline is started and awaited inside one \<open>try\<close>; \<open>KeyboardInterrupt\<close> is the only
  exception caught there.
\<close>

definition yoink_run_fzf ::
  "env \<Rightarrow> SearchConfig \<Rightarrow> string \<Rightarrow> world \<Rightarrow> (string option \<times> bool) res \<times> world" where
  "yoink_run_fzf e config bat_exe w =
     (let p = yoink_build config bat_exe;
          w1 = say (Shell (source_cmd p)) w
      in if \<not> can_exec e ''fzf'' then (Raised FileNotFoundError, w1)
         else (case block (say (Run (fzf_cmd p)) w1) of
                 (Got out, w') \<Rightarrow> (Ret (Some out, is_content p), w')
               | (Interrupted, w') \<Rightarrow> (Ret (None, False), w')
               | (Blocked, w') \<Rightarrow> (Starved, w')))"

subsection \<open>Selection Loop: \<open>main\<close>\<close>

text \<open>Lines 229-235: the handoff file of an earlier session is removed.\<close>

definition clear_last_path :: "env \<Rightarrow> world \<Rightarrow> world" where
  "clear_last_path e w =
     (let last_path_file = expanduser e ''~/.yoink_last_path'' in
      if files w last_path_file \<noteq> None then
        (if remove_fails e then w else w\<lparr>files := (files w)(last_path_file := None)\<rparr>)
      else w)"

text \<open>Lines 242-248: the query prompt of content mode.\<close>

definition yoink_prompt :: "SearchConfig \<Rightarrow> world \<Rightarrow> SearchConfig res \<times> world" where
  "yoink_prompt config w =
     (if mode config = ''content'' \<and> initial_query config = [] then
        (case block (say (Ask ''[bold green]Search Query[/bold green]'')
                      (say (RPanel ''[bold cyan]Content Search Mode[/bold cyan]''
                                   ''Enter text to search for (ripgrep)'')
                        (say ClearScreen w))) of
           (Got q, w') \<Rightarrow> (Ret (config\<lparr>initial_query := (if q = [] then ''.'' else q)\<rparr>), w')
         | (Interrupted, w') \<Rightarrow> (Raised KeyboardInterrupt, w')
         | (Blocked, w') \<Rightarrow> (Starved, w'))
      else (Ret config, w))"

text \<open>
  One pass through the loop body ends the loop (\<open>break\<close>, \<open>sys.exit\<close>, an exception) or
  starts the next pass with a configuration (\<open>continue\<close>).
\<close>

datatype step = Continue SearchConfig | Stop "unit res"

text \<open>Lines 255-264: the pressed key and the selected line, or \<open>sys.exit(0)\<close>.\<close>

fun yoink_key_and_selection :: "string list \<Rightarrow> (string \<times> string option) option" where
  "yoink_key_and_selection [] = None"
| "yoink_key_and_selection [k] = Some (k, None)"
| "yoink_key_and_selection (k # l # _) = Some (k, Some l)"

definition ended :: "unit res \<times> world \<Rightarrow> step \<times> world" where
  "ended r = (Stop (fst r), snd r)"

text \<open>
  Lines 252-307, the routing of the pressed key: the loop goes on with a configuration
  (\<open>continue\<close>), the process is left (\<open>sys.exit\<close>), or \<open>open_file\<close> is called with a
  path, a line and an editor name, after which the loop ends (\<open>break\<close>).
\<close>

datatype decision = Next SearchConfig | Leave nat | Dispatch string "string option" string

definition yoink_decide :: "SearchConfig \<Rightarrow> string option \<Rightarrow> bool \<Rightarrow> decision" where
  "yoink_decide config output is_content_flag =
     (case output of
        None \<Rightarrow> Leave 0
      | Some out \<Rightarrow>
        if out = [] then Leave 0
        else
        (case yoink_key_and_selection (splitlines out) of
           None \<Rightarrow> Leave 0
         | Some (key_pressed, selection_text) \<Rightarrow>
             if key_pressed = ''ctrl-f'' then Next (config\<lparr>mode := ''filename''\<rparr>)
             else if key_pressed = ''ctrl-g'' then
               Next (config\<lparr>mode := ''content'', initial_query := ''''\<rparr>)
             else if key_pressed = ''ctrl-s'' then
               Next (config\<lparr>case_sensitive := \<not> case_sensitive config\<rparr>)
             else if key_pressed = ''ctrl-h'' then
               Next (config\<lparr>hidden_files := \<not> hidden_files config\<rparr>)
             else
               (case selection_text of
                  None \<Rightarrow> Next config
                | Some sel \<Rightarrow>
                    if sel = [] then Next config
                    else
                      (case yoink_parse_selection sel is_content_flag of
                         (filepath, line_num) \<Rightarrow>
                           (case filepath of
                              None \<Rightarrow> Leave 1
                            | Some fp \<Rightarrow>
                                if fp = [] then Leave 1
                                else if key_pressed = ''ctrl-v'' then Dispatch fp line_num ''vim''
                                else if key_pressed = ''ctrl-x'' then Dispatch fp line_num ''vscode''
                                else if key_pressed = ''ctrl-t'' then Dispatch fp line_num ''sublime''
                                else if key_pressed = ''ctrl-o'' then Dispatch fp line_num ''folder''
                                else Dispatch fp line_num (editor config))))))"

text \<open>Lines 252-307: what the loop body does with the result of \<open>run_fzf\<close>.\<close>

definition yoink_handle_output ::
  "env \<Rightarrow> SearchConfig \<Rightarrow> string option \<Rightarrow> bool \<Rightarrow> world \<Rightarrow> step \<times> world" where
  "yoink_handle_output e config output is_content_flag w =
     (case yoink_decide config output is_content_flag of
        Next config' \<Rightarrow> (Continue config', w)
      | Leave n \<Rightarrow> (Stop (Exited n), w)
      | Dispatch fp line_num editor_name \<Rightarrow>
          ended (yoink_open_file e fp line_num editor_name w))"

text \<open>Lines 250-307: the pipeline is run and its result handled.\<close>

definition yoink_search :: "env \<Rightarrow> string \<Rightarrow> SearchConfig \<Rightarrow> world \<Rightarrow> step \<times> world" where
  "yoink_search e bat_exe config w =
     (case yoink_run_fzf e config bat_exe w of
        (Ret (output, is_content_flag), w') \<Rightarrow> yoink_handle_output e config output is_content_flag w'
      | (Raised x, w') \<Rightarrow> (Stop (Raised x), w')
      | (Exited n, w') \<Rightarrow> (Stop (Exited n), w')
      | (Starved, w') \<Rightarrow> (Stop Starved, w'))"

text \<open>Lines 241-307: one pass through the body of \<open>while True\<close>.\<close>

definition yoink_iteration :: "env \<Rightarrow> string \<Rightarrow> SearchConfig \<Rightarrow> world \<Rightarrow> step \<times> world" where
  "yoink_iteration e bat_exe config w =
     (case yoink_prompt config w of
        (Ret config', w') \<Rightarrow> yoink_search e bat_exe config' w'
      | (Raised x, w') \<Rightarrow> (Stop (Raised x), w')
      | (Exited n, w') \<Rightarrow> (Stop (Exited n), w')
      | (Starved, w') \<Rightarrow> (Stop Starved, w'))"

lemma block_operator_le: "block w = (r, w') \<Longrightarrow> length (operator w') \<le> length (operator w)"
  by (auto simp: block_def split: list.splits response.splits)

lemma block_Got_operator_less:
  "block w = (Got s, w') \<Longrightarrow> length (operator w') < length (operator w)"
  by (auto simp: block_def split: list.splits response.splits)

lemma yoink_prompt_operator_le:
  "yoink_prompt config w = (r, w') \<Longrightarrow> length (operator w') \<le> length (operator w)"
  by (auto simp: yoink_prompt_def say_def split: if_splits prod.splits wait.splits
           dest!: block_operator_le)

lemma yoink_run_fzf_operator_less:
  "yoink_run_fzf e config bat_exe w = (Ret (Some out, c), w')
     \<Longrightarrow> length (operator w') < length (operator w)"
  by (auto simp: yoink_run_fzf_def say_def Let_def split: if_splits prod.splits wait.splits
           dest!: block_Got_operator_less)

lemma yoink_handle_output_Continue:
  "yoink_handle_output e config output c w = (Continue config', w')
     \<Longrightarrow> w' = w \<and> (\<exists>out. output = Some out)"
  by (auto simp: yoink_handle_output_def yoink_decide_def ended_def
           split: decision.splits option.splits if_splits)

lemma yoink_iteration_Continue_operator_less:
  assumes "yoink_iteration e bat_exe config w = (Continue config', w')"
  shows "length (operator w') < length (operator w)"
proof -
  from assms obtain c1 w1 where p: "yoink_prompt config w = (Ret c1, w1)"
    and s: "yoink_search e bat_exe c1 w1 = (Continue config', w')"
    by (auto simp: yoink_iteration_def split: prod.splits res.splits)
  from s obtain outp c w2 where r: "yoink_run_fzf e c1 bat_exe w1 = (Ret (outp, c), w2)"
    and h: "yoink_handle_output e c1 outp c w2 = (Continue config', w')"
    by (auto simp: yoink_search_def split: prod.splits res.splits)
  from yoink_handle_output_Continue [OF h] obtain out where "w' = w2" "outp = Some out"
    by blast
  with r have "length (operator w') < length (operator w1)"
    using yoink_run_fzf_operator_less by blast
  with yoink_prompt_operator_le [OF p] show ?thesis by simp
qed

text \<open>
  Lines 240-307: \<open>while True\<close>. Every pass that continues has consumed a response of the
  operator, so the loop over a finite list of responses ends, with \<open>Starved\<close> when the
  program is still blocked after the last of them.
\<close>

function yoink_loop :: "env \<Rightarrow> string \<Rightarrow> SearchConfig \<Rightarrow> world \<Rightarrow> unit res \<times> world" where
  "yoink_loop e bat_exe config w =
     (case yoink_iteration e bat_exe config w of
        (Continue config', w') \<Rightarrow> yoink_loop e bat_exe config' w'
      | (Stop r, w') \<Rightarrow> (r, w'))"
  by pat_completeness auto
termination
  by (relation "measure (\<lambda>(e, bat_exe, config, w). length (operator w))")
     (auto dest: yoink_iteration_Continue_operator_less [OF sym])

declare yoink_loop.simps [simp del]





text \<open>\<open>main\<close>, lines 223-307.\<close>

definition yoink_main :: "env \<Rightarrow> world \<Rightarrow> unit res \<times> world" where
  "yoink_main e w =
     (case yoink_check_dependencies e w of
        (Ret _, w1) \<Rightarrow>
          yoink_loop e (get_bat_command e) yoink_SearchConfig (clear_last_path e w1)
      | r \<Rightarrow> r)"

text \<open>Lines 309-313: the script; \<open>KeyboardInterrupt\<close> out of \<open>main\<close> becomes \<open>sys.exit(0)\<close>.\<close>

definition yoink_script :: "env \<Rightarrow> world \<Rightarrow> unit res \<times> world" where
  "yoink_script e w =
     (case yoink_main e w of
        (Raised KeyboardInterrupt, w') \<Rightarrow> (Exited 0, w')
      | r \<Rightarrow> r)"

section \<open>The dashboard front end (\<^verbatim>\<open>seeker.py\<close>)\<close>

definition FAIL :: string where
  "FAIL = ESC @ ''[91m''"

definition ENDC :: string where
  "ENDC = ESC @ ''[0m''"

definition seeker_check_dependencies :: "env \<Rightarrow> world \<Rightarrow> unit res \<times> world" where
  "seeker_check_dependencies e w =
     (let missing = missing_deps e BINARY_DEPENDENCIES in
      if missing \<noteq> [] then
        (Exited 1,
         say (Print ''Please install them using your package manager (brew, apt, winget, etc.).'')
           (say (Print (''The following tools are required in PATH: '' @ join '', '' missing))
             (say (Print (FAIL @ ''Error: Missing Binary Dependencies'' @ ENDC)) w)))
      else (Ret (), w))"

definition seeker_open_file ::
  "env \<Rightarrow> string \<Rightarrow> string option \<Rightarrow> string \<Rightarrow> world \<Rightarrow> unit res \<times> world" where
  "seeker_open_file e filepath line_number editor_name w =
     (if editor_name = ''print'' then (Ret (), say (Print (with_line filepath line_number)) w)
      else if editor_name = ''folder'' then
        (let folder_path = dirname (abspath e filepath);
             report = Print (FAIL @ ''Error opening folder: '' @ strerror e @ ENDC)
         in if platform_system e = ''Windows'' then
              (if startfile_fails e then (Ret (), say report w)
               else (Ret (), say (StartFile folder_path) w))
            else if platform_system e = ''Darwin'' then try_run e ''open'' [folder_path] report w
            else try_run e ''xdg-open'' [folder_path] report w)
      else if editor_name = ''vscode'' then
        try_run e ''code'' [''-g'', with_line filepath line_number]
          (Print (FAIL @ ''Error: 'code' command not found.'' @ ENDC)) w
      else if editor_name = ''vim'' then
        (let vim_cmd = (case EDITOR e of None \<Rightarrow> ''vim'' | Some v \<Rightarrow> v)
         in try_run e vim_cmd (vim_args filepath line_number)
              (Print (FAIL @ ''Error: '' @ vim_cmd @ '' not found.'' @ ENDC)) w)
      else (Ret (), w))"

text \<open>
  \<open>str.upper\<close> on the ASCII letters; the dashboard offers the editor names \<open>vim\<close>,
  \<open>vscode\<close>, \<open>folder\<close> and \<open>print\<close> only.
\<close>

definition upper_chr :: "char \<Rightarrow> char" where
  "upper_chr c =
     (let n = (of_char c :: nat) in if 97 \<le> n \<and> n \<le> 122 then char_of (n - 32) else c)"

definition seeker_build :: "SearchConfig \<Rightarrow> string \<Rightarrow> pipeline" where
  "seeker_build config bat_exe =
     (let header = ''ENTER: '' @ map upper_chr (editor config)
                   @ '' | CTRL-V: Vim | CTRL-X: VS Code | CTRL-O: Folder'';
          fzf = (\<lambda>preview_cmd.
                   [''fzf'', ''--ansi'', ''--delimiter'', '':'', ''--height'', ''95%'',
                    ''--layout'', ''reverse'', ''--border'',
                    ''--header'', header,
                    ''--expect=ctrl-v,ctrl-x,ctrl-o'',
                    ''--preview'', preview_cmd,
                    ''--preview-window'', ''right:60%:wrap''])
      in if mode config = ''filename'' then
           (let hidden_flag = (if hidden_files config then ''--hidden'' else '''')
            in \<lparr>source_cmd = ''rg --files '' @ hidden_flag @ '' --glob '!.git/*'' @ [CHR 0x27],
                fzf_cmd = fzf (bat_exe @ '' --style=numbers --color=always {}''),
                is_content = False\<rparr>)
         else
           (let hidden_flag = (if hidden_files config then ''--hidden'' else '''');
                case_flag = (if case_sensitive config then ''--case-sensitive''
                             else ''--smart-case'');
                query = (if initial_query config \<noteq> [] then initial_query config else ''.'')
            in \<lparr>source_cmd = ''rg --line-number --no-heading --color=always '' @ hidden_flag
                               @ '' '' @ case_flag @ '' '' @ [CHR 0x27] @ query @ [CHR 0x27],
                fzf_cmd = fzf (bat_exe
                               @ '' --style=numbers --color=always --highlight-line {2} {1}''),
                is_content = True\<rparr>))"

definition seeker_run_fzf ::
  "env \<Rightarrow> SearchConfig \<Rightarrow> string \<Rightarrow> world \<Rightarrow> (string option \<times> bool) res \<times> world" where
  "seeker_run_fzf e config bat_exe w =
     (let p = seeker_build config bat_exe;
          w1 = say (Shell (source_cmd p)) w
      in if \<not> can_exec e ''fzf'' then (Raised FileNotFoundError, w1)
         else (case block (say (Run (fzf_cmd p)) w1) of
                 (Got out, w') \<Rightarrow> (Ret (Some (strip out), is_content p), w')
               | (Interrupted, w') \<Rightarrow> (Ret (None, False), w')
               | (Blocked, w') \<Rightarrow> (Starved, w')))"

text \<open>
  Lines 310-334 of \<open>main\<close>: what is done with the result of \<open>run_fzf\<close>.
\<close>

definition seeker_handle_output ::
  "env \<Rightarrow> SearchConfig \<Rightarrow> string option \<Rightarrow> bool \<Rightarrow> world \<Rightarrow> unit res \<times> world" where
  "seeker_handle_output e config output is_content_flag w =
     (case output of
        None \<Rightarrow> (Exited 0, say (Print ''No selection made.'') w)
      | Some out \<Rightarrow>
        if out = [] then (Exited 0, say (Print ''No selection made.'') w)
        else
        (case splitlines out of
           [] \<Rightarrow> (Exited 0, w)
         | [_] \<Rightarrow> (Exited 0, w)
         | key_pressed # selection_text # _ \<Rightarrow>
             (case seeker_parse_selection selection_text is_content_flag of
                (filepath, line_num) \<Rightarrow>
                  (case filepath of
                     None \<Rightarrow> (Exited 1, w)
                   | Some fp \<Rightarrow>
                       if fp = [] then (Exited 1, w)
                       else if key_pressed = ''ctrl-v'' then seeker_open_file e fp line_num ''vim'' w
                       else if key_pressed = ''ctrl-x'' then
                         seeker_open_file e fp line_num ''vscode'' w
                       else if key_pressed = ''ctrl-o'' then
                         seeker_open_file e fp line_num ''folder'' w
                       else seeker_open_file e fp line_num (editor config) w))))"

text \<open>
  \<open>main\<close>, lines 295-334. The dashboard has run before the search starts; \<open>tui\<close> is what
  \<open>app.run()\<close> returned, \<open>None\<close> when the operator left the dashboard without
  submitting.
\<close>

definition seeker_main :: "env \<Rightarrow> SearchConfig option \<Rightarrow> world \<Rightarrow> unit res \<times> world" where
  "seeker_main e tui w =
     (case seeker_check_dependencies e w of
        (Ret _, w1) \<Rightarrow>
          (case tui of
             None \<Rightarrow> (Exited 0, w1)
           | Some config \<Rightarrow>
               (case seeker_run_fzf e config (get_bat_command e) w1 of
                  (Ret (output, is_content_flag), w2) \<Rightarrow>
                    seeker_handle_output e config output is_content_flag w2
                | (Raised x, w2) \<Rightarrow> (Raised x, w2)
                | (Exited n, w2) \<Rightarrow> (Exited n, w2)
                | (Starved, w2) \<Rightarrow> (Starved, w2)))
      | r \<Rightarrow> r)"

definition seeker_script :: "env \<Rightarrow> SearchConfig option \<Rightarrow> world \<Rightarrow> unit res \<times> world" where
  "seeker_script e tui w =
     (case seeker_main e tui w of
        (Raised KeyboardInterrupt, w') \<Rightarrow> (Exited 0, w')
      | r \<Rightarrow> r)"

section \<open>How a POSIX shell reads a command line\<close>

text \<open>
  The source command is handed to \<open>/bin/sh -c\<close>. The reader below is the part of the
  shell's word splitting and quote removal that such a command line can exercise. It
  yields the argument vector of a single simple command when the line consists of
  literal characters, single-quoted text and backslash-escaped characters, separated by
  spaces. It stops with an error at an unmatched single quote, at a final backslash, and
  at any character that, outside quotes, would end the command, redirect, substitute,
  expand or open another kind of quoting: the point where text stops being an argument.
\<close>

datatype quoting = Unquoted | SingleQuoted

datatype sh_error = UnterminatedQuote | TrailingBackslash | UnquotedSpecial char

definition sh_special :: "char \<Rightarrow> bool" where
  "sh_special c = (c \<in> set (''|&;<>()$`*?[#~{}!'' @ [CHR 0x22, CHR 0x0A, CHR 0x09]))"

definition emit :: "string option \<Rightarrow> string list" where
  "emit cur = (case cur of None \<Rightarrow> [] | Some w \<Rightarrow> [w])"

definition word :: "string option \<Rightarrow> string" where
  "word cur = (case cur of None \<Rightarrow> [] | Some w \<Rightarrow> w)"

fun sh_lex :: "quoting \<Rightarrow> string list \<Rightarrow> string option \<Rightarrow> string \<Rightarrow> sh_error + string list" where
  "sh_lex Unquoted ws cur [] = Inr (ws @ emit cur)"
| "sh_lex SingleQuoted ws cur [] = Inl UnterminatedQuote"
| "sh_lex Unquoted ws cur (c # cs) =
     (if c = CHR '' '' then sh_lex Unquoted (ws @ emit cur) None cs
      else if c = CHR 0x27 then sh_lex SingleQuoted ws (Some (word cur)) cs
      else if c = CHR 0x5C then
        (case cs of
           [] \<Rightarrow> Inl TrailingBackslash
         | d # ds \<Rightarrow> if d = CHR 0x0A then sh_lex Unquoted ws cur ds
                    else sh_lex Unquoted ws (Some (word cur @ [d])) ds)
      else if sh_special c then Inl (UnquotedSpecial c)
      else sh_lex Unquoted ws (Some (word cur @ [c])) cs)"
| "sh_lex SingleQuoted ws cur (c # cs) =
     (if c = CHR 0x27 then sh_lex Unquoted ws cur cs
      else sh_lex SingleQuoted ws (Some (word cur @ [c])) cs)"

definition sh_argv :: "string \<Rightarrow> sh_error + string list" where
  "sh_argv s = sh_lex Unquoted [] None s"

section \<open>A concrete host\<close>

text \<open>
  A Linux host on which every tool is installed and nothing fails, and a world with no
  files and an operator who gives the listed responses. The examples below run the
  program on them.
\<close>

definition linux_host :: env where
  "linux_host =
     \<lparr>which = (\<lambda>_. True), can_exec = (\<lambda>_. True), getcwd = ''/home/u/proj'',
      home = ''/home/u'', platform_system = ''Linux'', EDITOR = None,
      remove_fails = False, handoff_write = WriteOk, startfile_fails = False,
      strerror = ''Permission denied''\<rparr>"

definition operator_does :: "response list \<Rightarrow> world" where
  "operator_does rs = \<lparr>files = Map.empty, log = [], operator = rs\<rparr>"

text \<open>The same world with further responses of the operator to come.\<close>

definition and_then :: "world \<Rightarrow> response list \<Rightarrow> world" where
  "and_then w rs = w\<lparr>operator := operator w @ rs\<rparr>"


section \<open>Shared facts\<close>

lemma splitlines_Cons_nonempty: "splitlines out = l # ls \<Longrightarrow> out \<noteq> []"
  by (cases out) (simp_all add: splitlines_def)

lemma key_and_selection_first:
  "yoink_key_and_selection (k # ls) = Some (k, case ls of [] \<Rightarrow> None | l # _ \<Rightarrow> Some l)"
  by (cases ls) simp_all

lemma say_fields [simp]:
  "files (say x w) = files w" "operator (say x w) = operator w" "log (say x w) = log w @ [x]"
  by (simp_all add: say_def)

lemma dirname_of_example: "dirname (normpath ''/home/u/proj/file.txt'') = ''/home/u/proj''"
  by (simp add: dirname_def normpath_def Let_def)

lemma expanduser_example: "expanduser linux_host ''~/.yoink_last_path'' = ''/home/u/.yoink_last_path''"
  by (simp add: expanduser_def linux_host_def)

section \<open>Properties of the Result Parser\<close>

lemma split_chr_nonempty: "split_chr sep s \<noteq> []"
  by (induction s) (auto split: list.splits)

lemma split_chr_two_parts_nonempty: "2 \<le> length (split_chr sep s) \<Longrightarrow> s \<noteq> []"
  by (cases s) auto

text \<open>
  C3, as the code has it: in content mode a selection with at least two colon-separated
  parts yields path = part 0 and line = part 1, the text of the second part as it
  stands, whether or not it is an integer. No part is ever parsed as a number.
\<close>

theorem parse_selection_line_verbatim:
  "2 \<le> length (split_chr CHR '':'' raw) \<Longrightarrow>
     yoink_parse_selection raw True
       = (Some (split_chr CHR '':'' raw ! 0), Some (split_chr CHR '':'' raw ! 1))
   \<and> seeker_parse_selection raw True
       = (Some (split_chr CHR '':'' raw ! 0), Some (split_chr CHR '':'' raw ! 1))"
  using split_chr_two_parts_nonempty [of "CHR '':''" raw]
  by (simp add: yoink_parse_selection_def seeker_parse_selection_def Let_def)

theorem parse_selection_line_verbatim_witness:
  "2 \<le> length (split_chr CHR '':'' ''a.py:12:x = 1'')
   \<and> yoink_parse_selection ''a.py:12:x = 1'' True = (Some ''a.py'', Some ''12'')
   \<and> seeker_parse_selection ''a.py:12:x = 1'' True = (Some ''a.py'', Some ''12'')"
  using parse_selection_line_verbatim [of "''a.py:12:x = 1''"]
  by simp

text \<open>
  C3 as the specification states it fails: the selection \<open>main.go:abc:x\<close> has three
  parts, the second is no integer, and both parsers hand \<open>abc\<close> on as the line.
\<close>

theorem parse_selection_malformed_line_counterexample:
  "2 \<le> length (split_chr CHR '':'' ''main.go:abc:x'')
   \<and> \<not> int_literal (split_chr CHR '':'' ''main.go:abc:x'' ! 1)
   \<and> yoink_parse_selection ''main.go:abc:x'' True = (Some ''main.go'', Some ''abc'')
   \<and> seeker_parse_selection ''main.go:abc:x'' True = (Some ''main.go'', Some ''abc'')
   \<and> yoink_parse_selection ''main.go:abc:x'' True \<noteq> (Some ''main.go'', None)
   \<and> seeker_parse_selection ''main.go:abc:x'' True \<noteq> (Some ''main.go'', None)"
  by (simp add: yoink_parse_selection_def seeker_parse_selection_def int_literal_def
        strip_def py_isspace_def is_digit_def)

text \<open>
  C9: the two Result Parsers return the same pair on every raw selection and every value
  of the content-mode flag.
\<close>

theorem parse_selection_variants_equal:
  "seeker_parse_selection raw flag = yoink_parse_selection raw flag"
  by (simp add: yoink_parse_selection_def seeker_parse_selection_def)

section \<open>Quoting of the search query\<close>

lemma sh_lex_quoted_query:
  "sh_lex SingleQuoted ws (Some acc) (replace_chr (CHR 0x27) quote_escape q @ [CHR 0x27] )
     = Inr (ws @ [acc @ q])"
proof (induction q arbitrary: acc)
  case Nil
  then show ?case by (simp add: replace_chr_def emit_def)
next
  case (Cons c q)
  show ?case
  proof (cases "c = CHR 0x27")
    case True
    have "replace_chr (CHR 0x27) quote_escape (c # q) @ [CHR 0x27]
            = CHR 0x27 # CHR 0x5C # CHR 0x27 # CHR 0x27
              # (replace_chr (CHR 0x27) quote_escape q @ [CHR 0x27])"
      using True by (simp add: replace_chr_def quote_escape_def)
    then show ?thesis
      using True Cons.IH [of "acc @ [c]"] by (simp add: word_def)
  next
    case False
    have "replace_chr (CHR 0x27) quote_escape (c # q) @ [CHR 0x27]
            = c # (replace_chr (CHR 0x27) quote_escape q @ [CHR 0x27])"
      using False by (simp add: replace_chr_def)
    then show ?thesis
      using False Cons.IH [of "acc @ [c]"] by (simp add: word_def)
  qed
qed

text \<open>
  In the looping front end the query reaches \<open>rg\<close> as one argument, character for
  character, whatever it contains: the shell reads the source command as a single simple
  command whose last word is the query (or \<open>.\<close> for an empty query).
\<close>

lemma yoink_content_source_cmd_argv:
  assumes "mode config \<noteq> ''filename''"
  shows "sh_argv (source_cmd (yoink_build config bat_exe))
     = Inr ([''rg'', ''--line-number'', ''--no-heading'', ''--color=always'']
            @ (if hidden_files config then [''--hidden''] else [])
            @ [if case_sensitive config then ''--case-sensitive'' else ''--smart-case'',
               if initial_query config \<noteq> [] then initial_query config else ''.''])"
  using assms
  by (simp add: sh_argv_def yoink_build_def Let_def sh_special_def emit_def word_def
        sh_lex_quoted_query)

lemma yoink_filename_source_cmd_argv:
  assumes "mode config = ''filename''"
  shows "sh_argv (source_cmd (yoink_build config bat_exe))
     = Inr ([''rg'', ''--files''] @ (if hidden_files config then [''--hidden''] else [])
            @ [''--glob'', ''!.git/*''])"
  using assms
  by (simp add: sh_argv_def yoink_build_def Let_def sh_special_def emit_def word_def)

text \<open>
  C1 fails in the dashboard front end, whose \<open>run_fzf\<close> puts the query between single
  quotes without escaping it. With the query \<open>it's\<close> the source command ends inside an
  open single quote. With the query \<open>x'; touch pwned; echo 'y\<close> the quotes balance, the
  search ends after \<open>'x'\<close>, and the shell meets an unquoted \<open>;\<close> followed by commands taken
  from the query.
\<close>

theorem seeker_query_quote_not_escaped:
  "source_cmd (seeker_build (seeker_SearchConfig\<lparr>mode := ''content'', initial_query := ''it's''\<rparr>) ''bat'')
     = ''rg --line-number --no-heading --color=always --hidden --smart-case 'it's'' @ [CHR 0x27]
   \<and> sh_argv (source_cmd (seeker_build
         (seeker_SearchConfig\<lparr>mode := ''content'', initial_query := ''it's''\<rparr>) ''bat''))
       = Inl UnterminatedQuote
   \<and> source_cmd (seeker_build (seeker_SearchConfig
         \<lparr>mode := ''content'', initial_query := ''x'; touch pwned; echo 'y''\<rparr>) ''bat'')
       = ''rg --line-number --no-heading --color=always --hidden --smart-case 'x'; touch pwned; echo 'y''
         @ [CHR 0x27]
   \<and> sh_argv (source_cmd (seeker_build (seeker_SearchConfig
         \<lparr>mode := ''content'', initial_query := ''x'; touch pwned; echo 'y''\<rparr>) ''bat''))
       = Inl (UnquotedSpecial CHR '';'')"
  by (simp add: seeker_build_def seeker_SearchConfig_def Let_def sh_argv_def sh_special_def
        emit_def word_def)

section \<open>Plain Enter\<close>

lemma yoink_parse_selection_nonempty:
  "sel \<noteq> [] \<Longrightarrow> \<exists>fp. fst (yoink_parse_selection sel flag) = Some fp"
  by (simp add: yoink_parse_selection_def Let_def)

lemma yoink_run_fzf_Answer:
  "can_exec e ''fzf'' \<Longrightarrow> operator w = Answer out # rs \<Longrightarrow>
     yoink_run_fzf e config bat_exe w
       = (Ret (Some out, is_content (yoink_build config bat_exe)),
          (say (Run (fzf_cmd (yoink_build config bat_exe)))
             (say (Shell (source_cmd (yoink_build config bat_exe))) w))\<lparr>operator := rs\<rparr>)"
  by (simp add: yoink_run_fzf_def Let_def block_def say_def)

text \<open>
  C2, as the looping front end has it: when the selector's output has an empty first line
  (plain Enter) and a non-empty selection line, the pass ends the loop; it runs
  \<open>open_file\<close> with the configuration's \<open>editor\<close> on the parsed selection when the parsed
  path is non-empty, and leaves with exit code 1 and no dispatch when the parsed path is
  empty.
\<close>

theorem yoink_enter_runs_default_action:
  assumes "can_exec e ''fzf''"
      and "operator w = Answer out # rs"
      and "splitlines out = [] # sel # rest"
      and "sel \<noteq> []"
      and "yoink_parse_selection sel (is_content (yoink_build config bat_exe)) = (Some fp, line_num)"
  shows "yoink_search e bat_exe config w
           = (let w' = (say (Run (fzf_cmd (yoink_build config bat_exe)))
                          (say (Shell (source_cmd (yoink_build config bat_exe))) w))
                       \<lparr>operator := rs\<rparr>
              in if fp = [] then (Stop (Exited 1), w')
                 else ended (yoink_open_file e fp line_num (editor config) w'))"
  using assms(3-5) splitlines_Cons_nonempty [OF assms(3)]
  by (simp add: yoink_search_def yoink_run_fzf_Answer [OF assms(1,2)]
        yoink_handle_output_def yoink_decide_def Let_def)

text \<open>
  C2, an instance: Enter on \<open>README.md\<close> with the default configuration runs the
  change-directory action, which writes the working directory to the handoff file.
\<close>

theorem yoink_enter_runs_default_action_witness:
  "can_exec linux_host ''fzf''
   \<and> operator (operator_does [Answer ''\<newline>README.md\<newline>'']) = Answer ''\<newline>README.md\<newline>'' # []
   \<and> splitlines ''\<newline>README.md\<newline>'' = [] # ''README.md'' # []
   \<and> ''README.md'' \<noteq> []
   \<and> yoink_parse_selection ''README.md'' (is_content (yoink_build yoink_SearchConfig ''bat''))
       = (Some ''README.md'', None)
   \<and> fst (yoink_search linux_host ''bat'' yoink_SearchConfig
            (operator_does [Answer ''\<newline>README.md\<newline>''])) = Stop (Ret ())
   \<and> files (snd (yoink_search linux_host ''bat'' yoink_SearchConfig
            (operator_does [Answer ''\<newline>README.md\<newline>''])))
         ''/home/u/.yoink_last_path'' = Some ''/home/u/proj''"
proof -
  have h1: "can_exec linux_host ''fzf''" by (simp add: linux_host_def)
  have h2: "operator (operator_does [Answer ''\<newline>README.md\<newline>''])
              = Answer ''\<newline>README.md\<newline>'' # []"
    by (simp add: operator_does_def)
  have h3: "splitlines ''\<newline>README.md\<newline>'' = [] # ''README.md'' # []"
    by (simp add: splitlines_def py_linebreak_def)
  have h4: "''README.md'' \<noteq> []" by simp
  have h5: "yoink_parse_selection ''README.md'' (is_content (yoink_build yoink_SearchConfig ''bat''))
              = (Some ''README.md'', None)"
    by (simp add: yoink_parse_selection_def yoink_build_def yoink_SearchConfig_def
          strip_def py_isspace_def)
  have d: "dirname (abspath linux_host ''README.md'') = ''/home/u/proj''"
    by (simp add: dirname_def abspath_def normpath_def isabs_def path_join_def linux_host_def
          Let_def)
  have o: "\<And>w. yoink_open_file linux_host ''README.md'' None (editor yoink_SearchConfig) w
             = (Ret (), w\<lparr>files := (files w)(''/home/u/.yoink_last_path'' \<mapsto> ''/home/u/proj'')\<rparr>)"
    using d by (simp add: yoink_open_file_def yoink_SearchConfig_def expanduser_example
                  Let_def) (simp add: linux_host_def)
  show ?thesis
    using h1 h2 h3 h5 yoink_enter_runs_default_action [OF h1 h2 h3 h4 h5]
    by (simp add: o ended_def Let_def)
qed

text \<open>
  C2 as the specification states it fails. In the looping front end the selection line
  consisting of one space parses to an empty path, and the program leaves with exit code 1
  without writing the handoff file. In the dashboard front end \<open>run_fzf\<close> strips the
  selector's output, which removes the empty first line that stands for Enter: \<open>main\<close> sees
  a single line and leaves with exit code 0, and nothing is printed although the
  default action is \<open>print\<close>.
\<close>

theorem enter_default_action_counterexample:
  "splitlines ''\<newline> \<newline>'' = [] # [ '' '']
   \<and> fst (yoink_search linux_host ''bat'' yoink_SearchConfig
            (operator_does [Answer ''\<newline> \<newline>''])) = Stop (Exited 1)
   \<and> files (snd (yoink_search linux_host ''bat'' yoink_SearchConfig
            (operator_does [Answer ''\<newline> \<newline>''])))
         (expanduser linux_host ''~/.yoink_last_path'') = None
   \<and> splitlines ''\<newline>README.md\<newline>'' = [] # [''README.md'']
   \<and> seeker_main linux_host (Some (seeker_SearchConfig\<lparr>editor := ''print''\<rparr>))
         (operator_does [Answer ''\<newline>README.md\<newline>''])
       = (Exited 0,
          \<lparr>files = Map.empty,
           log = [Shell (source_cmd (seeker_build (seeker_SearchConfig\<lparr>editor := ''print''\<rparr>) ''bat'')),
                  Run (fzf_cmd (seeker_build (seeker_SearchConfig\<lparr>editor := ''print''\<rparr>) ''bat''))],
           operator = []\<rparr>)"
  by (simp add: splitlines_def py_linebreak_def yoink_search_def yoink_run_fzf_def
        yoink_handle_output_def yoink_decide_def yoink_parse_selection_def strip_def
        py_isspace_def
        linux_host_def operator_does_def yoink_SearchConfig_def yoink_build_def
        block_def say_def Let_def seeker_main_def seeker_check_dependencies_def
        BINARY_DEPENDENCIES_def seeker_run_fzf_def get_bat_command_def
        seeker_handle_output_def)

section \<open>The handoff file across a session\<close>















text \<open>The script ends in the world in which \<open>main\<close> ends.\<close>

lemma yoink_script_world: "snd (yoink_script e w) = snd (yoink_main e w)"
  by (cases "yoink_main e w")
     (auto simp: yoink_script_def split: res.splits exn.splits)




section \<open>Interrupts\<close>

lemma and_then_fields [simp]:
  "files (and_then w rs) = files w" "log (and_then w rs) = log w"
  "operator (and_then w rs) = operator w @ rs"
  by (simp_all add: and_then_def)

lemma say_and_then [simp]: "say x (and_then w rs) = and_then (say x w) rs"
  by (simp add: say_def and_then_def)

lemma block_and_then:
  "fst (block w) \<noteq> Blocked \<Longrightarrow>
     block (and_then w rs) = (fst (block w), and_then (snd (block w)) rs)"
  by (auto simp: block_def and_then_def split: list.splits response.splits)

lemma block_interrupt:
  "fst (block w) = Blocked \<Longrightarrow>
     block (and_then w (Interrupt # rs)) = (Interrupted, and_then (snd (block w)) rs)"
  by (auto simp: block_def and_then_def split: list.splits response.splits)

lemma run_child_and_then:
  assumes "fst (run_child e prog args w) \<noteq> Starved"
  shows "run_child e prog args (and_then w rs)
           = (fst (run_child e prog args w), and_then (snd (run_child e prog args w)) rs)"
proof (cases "can_exec e prog")
  case False
  then show ?thesis by (simp add: run_child_def)
next
  case True
  obtain b w1 where b: "block (say (Run (prog # args)) w) = (b, w1)"
    by (cases "block (say (Run (prog # args)) w)")
  with assms True have "b \<noteq> Blocked"
    by (auto simp: run_child_def)
  with b block_and_then [of "say (Run (prog # args)) w" rs] True show ?thesis
    by (cases b) (simp_all add: run_child_def)
qed

lemma run_child_interrupt:
  assumes "fst (run_child e prog args w) = Starved"
  shows "run_child e prog args (and_then w (Interrupt # rs))
           = (Raised KeyboardInterrupt, and_then (snd (run_child e prog args w)) rs)"
proof (cases "can_exec e prog")
  case False
  with assms show ?thesis by (simp add: run_child_def)
next
  case True
  obtain b w1 where b: "block (say (Run (prog # args)) w) = (b, w1)"
    by (cases "block (say (Run (prog # args)) w)")
  with assms True have "b = Blocked"
    by (cases b) (auto simp: run_child_def)
  with b block_interrupt [of "say (Run (prog # args)) w" rs] True show ?thesis
    by (simp add: run_child_def)
qed

lemma try_run_and_then:
  assumes "fst (try_run e prog args report w) \<noteq> Starved"
  shows "try_run e prog args report (and_then w rs)
           = (fst (try_run e prog args report w), and_then (snd (try_run e prog args report w)) rs)"
proof -
  obtain r w1 where c: "run_child e prog args w = (r, w1)"
    by (cases "run_child e prog args w")
  with assms have "r \<noteq> Starved" by (auto simp: try_run_def)
  with c run_child_and_then [of e prog args w rs] show ?thesis
    by (auto simp: try_run_def split: res.splits exn.splits)
qed

lemma try_run_interrupt:
  assumes "fst (try_run e prog args report w) = Starved"
  shows "try_run e prog args report (and_then w (Interrupt # rs))
           = (Raised KeyboardInterrupt, and_then (snd (try_run e prog args report w)) rs)"
proof -
  obtain r w1 where c: "run_child e prog args w = (r, w1)"
    by (cases "run_child e prog args w")
  with assms have "r = Starved" by (auto simp: try_run_def split: res.splits exn.splits)
  with c run_child_interrupt [of e prog args w rs] show ?thesis
    by (simp add: try_run_def)
qed



lemma one_of_six:
  "x = a \<or> x = b \<or> x = c \<or> x = d \<or> x = f \<or> x = g \<or> x \<notin> {a, b, c, d, f, g}"
  by auto

lemma and_then_files_update:
  "and_then (w\<lparr>files := f\<rparr>) rs = (and_then w rs)\<lparr>files := f\<rparr>"
  by (simp add: and_then_def)

lemma yoink_open_file_and_then:
  assumes "fst (yoink_open_file e fp ln ed w) \<noteq> Starved"
  shows "yoink_open_file e fp ln ed (and_then w rs)
           = (fst (yoink_open_file e fp ln ed w), and_then (snd (yoink_open_file e fp ln ed w)) rs)"
proof -
  consider "ed = ''print''" | "ed = ''cd''" | "ed = ''folder''" | "ed = ''vscode''"
    | "ed = ''sublime''" | "ed = ''vim''"
    | "ed \<notin> {''print'', ''cd'', ''folder'', ''vscode'', ''sublime'', ''vim''}"
    using one_of_six [of ed "''print''" "''cd''" "''folder''" "''vscode''" "''sublime''" "''vim''"]
    by (elim disjE)
  then show ?thesis
  proof cases
    case 1
    then show ?thesis by (simp add: yoink_open_file_def)
  next
    case 2
    then show ?thesis
      by (simp add: yoink_open_file_def Let_def and_then_files_update split: write_outcome.split)
  next
    case 3
    with assms show ?thesis
      by (simp add: yoink_open_file_def Let_def try_run_and_then split: if_splits)
  next
    case 4
    with assms show ?thesis by (simp add: yoink_open_file_def try_run_and_then)
  next
    case 5
    with assms show ?thesis by (simp add: yoink_open_file_def try_run_and_then)
  next
    case 6
    with assms show ?thesis by (simp add: yoink_open_file_def Let_def try_run_and_then)
  next
    case 7
    then show ?thesis by (simp add: yoink_open_file_def)
  qed
qed

lemma yoink_open_file_interrupt:
  assumes "fst (yoink_open_file e fp ln ed w) = Starved"
  shows "yoink_open_file e fp ln ed (and_then w (Interrupt # rs))
           = (Raised KeyboardInterrupt, and_then (snd (yoink_open_file e fp ln ed w)) rs)"
proof -
  consider "ed = ''print''" | "ed = ''cd''" | "ed = ''folder''" | "ed = ''vscode''"
    | "ed = ''sublime''" | "ed = ''vim''"
    | "ed \<notin> {''print'', ''cd'', ''folder'', ''vscode'', ''sublime'', ''vim''}"
    using one_of_six [of ed "''print''" "''cd''" "''folder''" "''vscode''" "''sublime''" "''vim''"]
    by (elim disjE)
  then show ?thesis
  proof cases
    case 1
    with assms show ?thesis by (simp add: yoink_open_file_def)
  next
    case 2
    with assms show ?thesis
      by (simp add: yoink_open_file_def Let_def split: write_outcome.splits)
  next
    case 3
    with assms show ?thesis
      by (simp add: yoink_open_file_def Let_def try_run_interrupt split: if_splits)
  next
    case 4
    with assms show ?thesis by (simp add: yoink_open_file_def try_run_interrupt)
  next
    case 5
    with assms show ?thesis by (simp add: yoink_open_file_def try_run_interrupt)
  next
    case 6
    with assms show ?thesis by (simp add: yoink_open_file_def Let_def try_run_interrupt)
  next
    case 7
    with assms show ?thesis by (simp add: yoink_open_file_def)
  qed
qed

lemma yoink_prompt_and_then:
  assumes "fst (yoink_prompt config w) \<noteq> Starved"
  shows "yoink_prompt config (and_then w rs)
           = (fst (yoink_prompt config w), and_then (snd (yoink_prompt config w)) rs)"
proof (cases "mode config = ''content'' \<and> initial_query config = []")
  case False
  then show ?thesis by (auto simp: yoink_prompt_def)
next
  case True
  let ?w = "say (Ask ''[bold green]Search Query[/bold green]'')
              (say (RPanel ''[bold cyan]Content Search Mode[/bold cyan]''
                           ''Enter text to search for (ripgrep)'')
                (say ClearScreen w))"
  obtain b w1 where b: "block ?w = (b, w1)" by (cases "block ?w")
  with assms True have "b \<noteq> Blocked" by (auto simp: yoink_prompt_def)
  with b block_and_then [of ?w rs] True show ?thesis
    by (cases b) (simp_all add: yoink_prompt_def)
qed

lemma yoink_prompt_interrupt:
  assumes "fst (yoink_prompt config w) = Starved"
  shows "yoink_prompt config (and_then w (Interrupt # rs))
           = (Raised KeyboardInterrupt, and_then (snd (yoink_prompt config w)) rs)"
proof (cases "mode config = ''content'' \<and> initial_query config = []")
  case False
  with assms show ?thesis by (auto simp: yoink_prompt_def)
next
  case True
  let ?w = "say (Ask ''[bold green]Search Query[/bold green]'')
              (say (RPanel ''[bold cyan]Content Search Mode[/bold cyan]''
                           ''Enter text to search for (ripgrep)'')
                (say ClearScreen w))"
  obtain b w1 where b: "block ?w = (b, w1)" by (cases "block ?w")
  with assms True have "b = Blocked" by (cases b) (auto simp: yoink_prompt_def)
  with b block_interrupt [of ?w rs] True show ?thesis
    by (simp add: yoink_prompt_def)
qed

lemma yoink_run_fzf_and_then:
  assumes "fst (yoink_run_fzf e config bat_exe w) \<noteq> Starved"
  shows "yoink_run_fzf e config bat_exe (and_then w rs)
           = (fst (yoink_run_fzf e config bat_exe w),
              and_then (snd (yoink_run_fzf e config bat_exe w)) rs)"
proof (cases "can_exec e ''fzf''")
  case False
  then show ?thesis by (simp add: yoink_run_fzf_def Let_def)
next
  case True
  let ?w = "say (Run (fzf_cmd (yoink_build config bat_exe)))
              (say (Shell (source_cmd (yoink_build config bat_exe))) w)"
  obtain b w1 where b: "block ?w = (b, w1)" by (cases "block ?w")
  with assms True have "b \<noteq> Blocked" by (auto simp: yoink_run_fzf_def Let_def)
  with b block_and_then [of ?w rs] True show ?thesis
    by (cases b) (simp_all add: yoink_run_fzf_def Let_def)
qed

lemma yoink_run_fzf_interrupt:
  assumes "fst (yoink_run_fzf e config bat_exe w) = Starved"
  shows "yoink_run_fzf e config bat_exe (and_then w (Interrupt # rs))
           = (Ret (None, False), and_then (snd (yoink_run_fzf e config bat_exe w)) rs)"
proof (cases "can_exec e ''fzf''")
  case False
  with assms show ?thesis by (simp add: yoink_run_fzf_def Let_def)
next
  case True
  let ?w = "say (Run (fzf_cmd (yoink_build config bat_exe)))
              (say (Shell (source_cmd (yoink_build config bat_exe))) w)"
  obtain b w1 where b: "block ?w = (b, w1)" by (cases "block ?w")
  with assms True have "b = Blocked" by (cases b) (auto simp: yoink_run_fzf_def Let_def)
  with b block_interrupt [of ?w rs] True show ?thesis
    by (simp add: yoink_run_fzf_def Let_def)
qed

lemma yoink_handle_output_and_then:
  assumes "fst (yoink_handle_output e config outp flag w) \<noteq> Stop Starved"
  shows "yoink_handle_output e config outp flag (and_then w rs)
           = (fst (yoink_handle_output e config outp flag w),
              and_then (snd (yoink_handle_output e config outp flag w)) rs)"
  using assms
  by (cases "yoink_decide config outp flag")
     (simp_all add: yoink_handle_output_def ended_def yoink_open_file_and_then)

lemma yoink_handle_output_interrupt:
  assumes "fst (yoink_handle_output e config outp flag w) = Stop Starved"
  shows "yoink_handle_output e config outp flag (and_then w (Interrupt # rs))
           = (Stop (Raised KeyboardInterrupt),
              and_then (snd (yoink_handle_output e config outp flag w)) rs)"
  using assms
  by (cases "yoink_decide config outp flag")
     (simp_all add: yoink_handle_output_def ended_def yoink_open_file_interrupt)

lemma yoink_handle_output_None [simp]:
  "yoink_handle_output e config None flag w = (Stop (Exited 0), w)"
  by (simp add: yoink_handle_output_def yoink_decide_def)

lemma yoink_search_and_then:
  assumes "fst (yoink_search e bat_exe config w) \<noteq> Stop Starved"
  shows "yoink_search e bat_exe config (and_then w rs)
           = (fst (yoink_search e bat_exe config w),
              and_then (snd (yoink_search e bat_exe config w)) rs)"
proof -
  obtain r w1 where q: "yoink_run_fzf e config bat_exe w = (r, w1)"
    by (cases "yoink_run_fzf e config bat_exe w")
  with assms have ns: "r \<noteq> Starved" by (auto simp: yoink_search_def)
  with q yoink_run_fzf_and_then [of e config bat_exe w rs]
  have q': "yoink_run_fzf e config bat_exe (and_then w rs) = (r, and_then w1 rs)" by simp
  show ?thesis
  proof (cases r)
    case (Ret pr)
    obtain outp flag where pr: "pr = (outp, flag)" by (cases pr)
    with assms q Ret have "fst (yoink_handle_output e config outp flag w1) \<noteq> Stop Starved"
      by (simp add: yoink_search_def)
    from yoink_handle_output_and_then [OF this, of rs] q q' Ret pr show ?thesis
      by (simp add: yoink_search_def)
  qed (use q q' ns in \<open>simp_all add: yoink_search_def\<close>)
qed

lemma yoink_search_interrupt:
  assumes "fst (yoink_search e bat_exe config w) = Stop Starved"
  shows "\<exists>r. (r = Exited 0 \<or> r = Raised KeyboardInterrupt)
           \<and> yoink_search e bat_exe config (and_then w (Interrupt # rs))
               = (Stop r, and_then (snd (yoink_search e bat_exe config w)) rs)"
proof -
  obtain r w1 where q: "yoink_run_fzf e config bat_exe w = (r, w1)"
    by (cases "yoink_run_fzf e config bat_exe w")
  show ?thesis
  proof (cases r)
    case (Ret pr)
    obtain outp flag where pr: "pr = (outp, flag)" by (cases pr)
    with assms q Ret have h: "fst (yoink_handle_output e config outp flag w1) = Stop Starved"
      by (simp add: yoink_search_def)
    from q Ret yoink_run_fzf_and_then [of e config bat_exe w "Interrupt # rs"]
    have "yoink_run_fzf e config bat_exe (and_then w (Interrupt # rs))
            = (r, and_then w1 (Interrupt # rs))" by simp
    with yoink_handle_output_interrupt [OF h, of rs] q Ret pr show ?thesis
      by (simp add: yoink_search_def)
  next
    case Starved
    with q yoink_run_fzf_interrupt [of e config bat_exe w rs] show ?thesis
      by (simp add: yoink_search_def)
  qed (use assms q in \<open>simp_all add: yoink_search_def\<close>)
qed

lemma yoink_iteration_and_then:
  assumes "fst (yoink_iteration e bat_exe config w) \<noteq> Stop Starved"
  shows "yoink_iteration e bat_exe config (and_then w rs)
           = (fst (yoink_iteration e bat_exe config w),
              and_then (snd (yoink_iteration e bat_exe config w)) rs)"
proof -
  obtain r w1 where p: "yoink_prompt config w = (r, w1)" by (cases "yoink_prompt config w")
  with assms have ns: "r \<noteq> Starved" by (auto simp: yoink_iteration_def)
  with p yoink_prompt_and_then [of config w rs]
  have p': "yoink_prompt config (and_then w rs) = (r, and_then w1 rs)" by simp
  show ?thesis
  proof (cases r)
    case (Ret c1)
    with assms p have "fst (yoink_search e bat_exe c1 w1) \<noteq> Stop Starved"
      by (simp add: yoink_iteration_def)
    from yoink_search_and_then [OF this, of rs] p p' Ret show ?thesis
      by (simp add: yoink_iteration_def)
  qed (use p p' ns in \<open>simp_all add: yoink_iteration_def\<close>)
qed

lemma yoink_iteration_interrupt:
  assumes "fst (yoink_iteration e bat_exe config w) = Stop Starved"
  shows "\<exists>r. (r = Exited 0 \<or> r = Raised KeyboardInterrupt)
           \<and> yoink_iteration e bat_exe config (and_then w (Interrupt # rs))
               = (Stop r, and_then (snd (yoink_iteration e bat_exe config w)) rs)"
proof -
  obtain r w1 where p: "yoink_prompt config w = (r, w1)" by (cases "yoink_prompt config w")
  show ?thesis
  proof (cases r)
    case (Ret c1)
    with assms p have h: "fst (yoink_search e bat_exe c1 w1) = Stop Starved"
      by (simp add: yoink_iteration_def)
    from p Ret yoink_prompt_and_then [of config w "Interrupt # rs"]
    have "yoink_prompt config (and_then w (Interrupt # rs)) = (r, and_then w1 (Interrupt # rs))"
      by simp
    with yoink_search_interrupt [OF h, of rs] p Ret show ?thesis
      by (simp add: yoink_iteration_def)
  next
    case Starved
    with p yoink_prompt_interrupt [of config w rs] show ?thesis
      by (simp add: yoink_iteration_def)
  qed (use assms p in \<open>simp_all add: yoink_iteration_def\<close>)
qed

lemma yoink_loop_interrupt:
  "fst (yoink_loop e bat_exe config w) = Starved \<Longrightarrow>
     \<exists>r. (r = Exited 0 \<or> r = Raised KeyboardInterrupt)
        \<and> yoink_loop e bat_exe config (and_then w (Interrupt # rs))
            = (r, and_then (snd (yoink_loop e bat_exe config w)) rs)"
proof (induction e bat_exe config w rule: yoink_loop.induct)
  case (1 e bat_exe config w)
  obtain s w1 where it: "yoink_iteration e bat_exe config w = (s, w1)"
    by (cases "yoink_iteration e bat_exe config w")
  show ?case
  proof (cases s)
    case (Continue c1)
    have l: "yoink_loop e bat_exe config w = yoink_loop e bat_exe c1 w1"
      using it Continue by (subst yoink_loop.simps) simp
    from it Continue yoink_iteration_and_then [of e bat_exe config w "Interrupt # rs"]
    have "yoink_iteration e bat_exe config (and_then w (Interrupt # rs))
            = (Continue c1, and_then w1 (Interrupt # rs))" by simp
    then have l': "yoink_loop e bat_exe config (and_then w (Interrupt # rs))
                     = yoink_loop e bat_exe c1 (and_then w1 (Interrupt # rs))"
      by (subst yoink_loop.simps) simp
    from "1.prems" l have "fst (yoink_loop e bat_exe c1 w1) = Starved" by simp
    from "1.IH" [OF it [symmetric] Continue this] l l' show ?thesis by simp
  next
    case (Stop r1)
    have l: "yoink_loop e bat_exe config w = (r1, w1)"
      using it Stop by (subst yoink_loop.simps) simp
    with "1.prems" have "r1 = Starved" by simp
    with it Stop yoink_iteration_interrupt [of e bat_exe config w rs]
    obtain r where r: "r = Exited 0 \<or> r = Raised KeyboardInterrupt"
      and i: "yoink_iteration e bat_exe config (and_then w (Interrupt # rs))
               = (Stop r, and_then w1 rs)" by auto
    from i have "yoink_loop e bat_exe config (and_then w (Interrupt # rs)) = (r, and_then w1 rs)"
      by (subst yoink_loop.simps) simp
    with r l show ?thesis by auto
  qed
qed

lemma yoink_check_dependencies_and_then:
  "yoink_check_dependencies e (and_then w rs)
     = (fst (yoink_check_dependencies e w), and_then (snd (yoink_check_dependencies e w)) rs)"
  by (simp add: yoink_check_dependencies_def Let_def)

lemma yoink_check_dependencies_not_Starved:
  "fst (yoink_check_dependencies e w) \<noteq> Starved"
  by (simp add: yoink_check_dependencies_def Let_def)

lemma clear_last_path_and_then:
  "clear_last_path e (and_then w rs) = and_then (clear_last_path e w) rs"
  by (simp add: clear_last_path_def Let_def and_then_files_update)

lemma yoink_main_interrupt:
  assumes "fst (yoink_main e w) = Starved"
  shows "\<exists>r. (r = Exited 0 \<or> r = Raised KeyboardInterrupt)
           \<and> yoink_main e (and_then w (Interrupt # rs)) = (r, and_then (snd (yoink_main e w)) rs)"
proof -
  obtain r w1 where c: "yoink_check_dependencies e w = (r, w1)"
    by (cases "yoink_check_dependencies e w")
  then have c': "yoink_check_dependencies e (and_then w (Interrupt # rs))
                   = (r, and_then w1 (Interrupt # rs))"
    by (simp add: yoink_check_dependencies_and_then)
  show ?thesis
  proof (cases r)
    case (Ret u)
    with assms c
    have "fst (yoink_loop e (get_bat_command e) yoink_SearchConfig (clear_last_path e w1)) = Starved"
      by (simp add: yoink_main_def)
    from yoink_loop_interrupt [OF this, of rs] c c' Ret show ?thesis
      by (simp add: yoink_main_def clear_last_path_and_then)
  qed (use assms c yoink_check_dependencies_not_Starved [of e w] in
        \<open>simp_all add: yoink_main_def\<close>)
qed

text \<open>
  C5, for the looping front end. When the pipeline is in flight and the operator
  interrupts, \<open>run_fzf\<close> returns the cancelled value \<open>(None, False)\<close>. When the program is
  blocked at any point (the query prompt, the pipeline, a child process started by a
  dispatch) and the operator interrupts, the script leaves with exit code 0 in the very
  state in which it was blocked: nothing more is printed, written or started. The script
  never ends with \<open>KeyboardInterrupt\<close> raised.
\<close>

theorem interrupt_is_clean_cancellation:
  "(fst (yoink_run_fzf e config bat_exe w) = Starved \<longrightarrow>
      yoink_run_fzf e config bat_exe (and_then w (Interrupt # rs))
        = (Ret (None, False), and_then (snd (yoink_run_fzf e config bat_exe w)) rs))
   \<and> (fst (yoink_script e w0) = Starved \<longrightarrow>
        yoink_script e (and_then w0 (Interrupt # rs))
          = (Exited 0, and_then (snd (yoink_script e w0)) rs))
   \<and> fst (yoink_script e w1) \<noteq> Raised KeyboardInterrupt"
proof (intro conjI impI)
  assume "fst (yoink_run_fzf e config bat_exe w) = Starved"
  then show "yoink_run_fzf e config bat_exe (and_then w (Interrupt # rs))
        = (Ret (None, False), and_then (snd (yoink_run_fzf e config bat_exe w)) rs)"
    by (rule yoink_run_fzf_interrupt)
next
  assume s: "fst (yoink_script e w0) = Starved"
  obtain r0 wm where m: "yoink_main e w0 = (r0, wm)" by (cases "yoink_main e w0")
  with s have r0: "r0 = Starved"
    by (auto simp: yoink_script_def split: res.splits exn.splits)
  with m yoink_main_interrupt [of e w0 rs]
  obtain r where "r = Exited 0 \<or> r = Raised KeyboardInterrupt"
    and "yoink_main e (and_then w0 (Interrupt # rs)) = (r, and_then wm rs)" by auto
  with m r0 show "yoink_script e (and_then w0 (Interrupt # rs))
          = (Exited 0, and_then (snd (yoink_script e w0)) rs)"
    by (auto simp: yoink_script_def)
next
  show "fst (yoink_script e w1) \<noteq> Raised KeyboardInterrupt"
    by (auto simp: yoink_script_def split: prod.splits res.splits exn.splits)
qed

lemma blocked_after_toggle:
  "yoink_script linux_host (operator_does [Answer ''ctrl-s\<newline>''])
     = (Starved,
        \<lparr>files = Map.empty,
         log = [Shell (source_cmd (yoink_build yoink_SearchConfig ''bat'')),
                Run (fzf_cmd (yoink_build yoink_SearchConfig ''bat'')),
                Shell (source_cmd (yoink_build (yoink_SearchConfig\<lparr>case_sensitive := True\<rparr>) ''bat'')),
                Run (fzf_cmd (yoink_build (yoink_SearchConfig\<lparr>case_sensitive := True\<rparr>) ''bat''))],
         operator = []\<rparr>)"
  by (simp add: yoink_script_def yoink_main_def yoink_check_dependencies_def
        BINARY_DEPENDENCIES_def linux_host_def operator_does_def get_bat_command_def
        clear_last_path_def expanduser_def yoink_loop.simps yoink_iteration_def
        yoink_prompt_def yoink_search_def yoink_run_fzf_def block_def say_def Let_def
        yoink_handle_output_def yoink_decide_def splitlines_def py_linebreak_def
        yoink_SearchConfig_def)

text \<open>
  C5, an instance: the operator toggles case sensitivity and then interrupts the second
  search.
\<close>

theorem interrupt_is_clean_cancellation_witness:
  "fst (yoink_run_fzf linux_host yoink_SearchConfig ''bat'' (operator_does [])) = Starved
   \<and> fst (yoink_script linux_host (operator_does [Answer ''ctrl-s\<newline>''])) = Starved
   \<and> fst (yoink_run_fzf linux_host yoink_SearchConfig ''bat''
             (and_then (operator_does []) [Interrupt])) = Ret (None, False)
   \<and> fst (yoink_script linux_host
             (and_then (operator_does [Answer ''ctrl-s\<newline>'']) [Interrupt])) = Exited 0"
proof -
  have a: "fst (yoink_run_fzf linux_host yoink_SearchConfig ''bat'' (operator_does [])) = Starved"
    by (simp add: yoink_run_fzf_def Let_def linux_host_def operator_does_def block_def say_def)
  have b: "fst (yoink_script linux_host (operator_does [Answer ''ctrl-s\<newline>''])) = Starved"
    by (simp add: blocked_after_toggle)
  show ?thesis
    using a b
      interrupt_is_clean_cancellation [of linux_host yoink_SearchConfig "''bat''"
        "operator_does []" "[]" "operator_does [Answer ''ctrl-s\<newline>'']" "operator_does []"]
    by simp
qed

text \<open>
  The dashboard front end handles the interrupt in the same way, except that its \<open>main\<close>
  prints a notice before it leaves with exit code 0.
\<close>

lemma seeker_interrupt_prints_notice:
  assumes "missing_deps e BINARY_DEPENDENCIES = []" and "can_exec e ''fzf''"
      and "operator w = Interrupt # rs"
  shows "seeker_script e (Some config) w
           = (Exited 0,
              (say (Print ''No selection made.'')
                 (say (Run (fzf_cmd (seeker_build config (get_bat_command e))))
                    (say (Shell (source_cmd (seeker_build config (get_bat_command e)))) w)))
              \<lparr>operator := rs\<rparr>)"
  using assms
  by (simp add: seeker_script_def seeker_main_def seeker_check_dependencies_def
        seeker_run_fzf_def seeker_handle_output_def block_def say_def Let_def)

section \<open>Dispatch actions\<close>

text \<open>
  C10: in the looping front end, \<open>open_file\<close> called with an editor name outside
  \<open>print\<close>, \<open>cd\<close>, \<open>folder\<close>, \<open>vscode\<close>, \<open>sublime\<close>, \<open>vim\<close> (the default \<open>system\<close>
  among them) returns with the world as it was: no file written, nothing printed, no child
  process started, no response of the operator consumed.
\<close>

theorem open_file_unrecognised_editor_no_effect:
  "editor_name \<notin> {''print'', ''cd'', ''folder'', ''vscode'', ''sublime'', ''vim''}
     \<Longrightarrow> yoink_open_file e filepath line_number editor_name w = (Ret (), w)"
  by (simp add: yoink_open_file_def)

text \<open>
  The default parameter value \<open>system\<close> is such a name.
\<close>

theorem open_file_unrecognised_editor_no_effect_witness:
  "''system'' \<notin> {''print'', ''cd'', ''folder'', ''vscode'', ''sublime'', ''vim''}
   \<and> yoink_open_file linux_host ''a.txt'' (Some ''3'') ''system'' (operator_does [Interrupt])
       = (Ret (), operator_does [Interrupt])"
  using open_file_unrecognised_editor_no_effect
          [of "''system''" linux_host "''a.txt''" "Some ''3''" "operator_does [Interrupt]"]
  by simp

text \<open>
  C6: where the handoff file can be opened and written, a change-directory dispatch on
  \<open>/home/u/proj/file.txt\<close> leaves the handoff file holding exactly \<open>/home/u/proj\<close>, whatever
  it held before, and changes nothing else.
\<close>

theorem cd_dispatch_overwrites_handoff:
  "handoff_write e = WriteOk \<Longrightarrow>
     yoink_open_file e ''/home/u/proj/file.txt'' line_number ''cd'' w
       = (Ret (), w\<lparr>files := (files w)(expanduser e ''~/.yoink_last_path'' \<mapsto> ''/home/u/proj'')\<rparr>)"
  using dirname_of_example
  by (simp add: yoink_open_file_def abspath_def isabs_def)

text \<open>
  A handoff file that held another path holds \<open>/home/u/proj\<close> afterwards.
\<close>

theorem cd_dispatch_overwrites_handoff_witness:
  "handoff_write linux_host = WriteOk
   \<and> files (snd (yoink_open_file linux_host ''/home/u/proj/file.txt'' None ''cd''
                  ((operator_does [])\<lparr>files := [''/home/u/.yoink_last_path'' \<mapsto> ''/old/place'']\<rparr>)))
        ''/home/u/.yoink_last_path'' = Some ''/home/u/proj''"
  using cd_dispatch_overwrites_handoff
     [of linux_host None "(operator_does [])\<lparr>files := [''/home/u/.yoink_last_path'' \<mapsto> ''/old/place'']\<rparr>"]
  by (simp add: expanduser_example) (simp add: linux_host_def)

section \<open>Toggle keys\<close>

text \<open>
  C7: when the pressed key is \<open>ctrl-g\<close>, the loop continues with mode \<open>content\<close> and an
  empty \<open>initial_query\<close>, whatever the query was and with every other field kept; the next
  pass through the loop then shows the query prompt.
\<close>

theorem ctrl_g_switches_to_content_and_clears_query:
  assumes "splitlines out = ''ctrl-g'' # rest"
  shows "yoink_handle_output e config (Some out) flag w
           = (Continue (config\<lparr>mode := ''content'', initial_query := ''''\<rparr>), w)
       \<and> log (snd (yoink_prompt (config\<lparr>mode := ''content'', initial_query := ''''\<rparr>) w))
           = log w @ [ClearScreen,
                      RPanel ''[bold cyan]Content Search Mode[/bold cyan]''
                             ''Enter text to search for (ripgrep)'',
                      Ask ''[bold green]Search Query[/bold green]'']"
proof
  show "yoink_handle_output e config (Some out) flag w
           = (Continue (config\<lparr>mode := ''content'', initial_query := ''''\<rparr>), w)"
    using assms splitlines_Cons_nonempty [OF assms]
    by (simp add: yoink_handle_output_def yoink_decide_def key_and_selection_first)
  show "log (snd (yoink_prompt (config\<lparr>mode := ''content'', initial_query := ''''\<rparr>) w))
           = log w @ [ClearScreen,
                      RPanel ''[bold cyan]Content Search Mode[/bold cyan]''
                             ''Enter text to search for (ripgrep)'',
                      Ask ''[bold green]Search Query[/bold green]'']"
    by (simp add: yoink_prompt_def block_def say_def split: list.split response.split)
qed

text \<open>
  A configuration already in content mode with the query \<open>TODO\<close> loses the query.
\<close>

theorem ctrl_g_switches_to_content_and_clears_query_witness:
  "splitlines ''ctrl-g\<newline>src/a.py\<newline>'' = ''ctrl-g'' # [''src/a.py'']
   \<and> yoink_handle_output linux_host
         (yoink_SearchConfig\<lparr>mode := ''content'', initial_query := ''TODO''\<rparr>)
         (Some ''ctrl-g\<newline>src/a.py\<newline>'') True (operator_does [])
       = (Continue (yoink_SearchConfig\<lparr>mode := ''content'', initial_query := ''''\<rparr>),
          operator_does [])"
proof -
  have h: "splitlines ''ctrl-g\<newline>src/a.py\<newline>'' = ''ctrl-g'' # [''src/a.py'']"
    by (simp add: splitlines_def py_linebreak_def)
  show ?thesis
    using h ctrl_g_switches_to_content_and_clears_query [OF h, of linux_host
        "yoink_SearchConfig\<lparr>mode := ''content'', initial_query := ''TODO''\<rparr>" True
        "operator_does []"]
    by simp
qed

text \<open>
  C8: \<open>ctrl-s\<close> flips \<open>case_sensitive\<close> and nothing else, and a second \<open>ctrl-s\<close> gives the
  original configuration back; the same holds for \<open>ctrl-h\<close> and \<open>hidden_files\<close>.
\<close>

theorem toggles_are_involutions:
  assumes "splitlines out1 = ''ctrl-s'' # rest1" and "splitlines out2 = ''ctrl-s'' # rest2"
      and "splitlines out3 = ''ctrl-h'' # rest3" and "splitlines out4 = ''ctrl-h'' # rest4"
  shows "yoink_handle_output e config (Some out1) flag1 w
           = (Continue (config\<lparr>case_sensitive := \<not> case_sensitive config\<rparr>), w)
       \<and> yoink_handle_output e (config\<lparr>case_sensitive := \<not> case_sensitive config\<rparr>)
             (Some out2) flag2 w
           = (Continue config, w)
       \<and> yoink_handle_output e config (Some out3) flag3 w
           = (Continue (config\<lparr>hidden_files := \<not> hidden_files config\<rparr>), w)
       \<and> yoink_handle_output e (config\<lparr>hidden_files := \<not> hidden_files config\<rparr>)
             (Some out4) flag4 w
           = (Continue config, w)"
  using assms assms [THEN splitlines_Cons_nonempty]
  by (simp add: yoink_handle_output_def yoink_decide_def key_and_selection_first)

text \<open>
  The default configuration, toggled twice each way.
\<close>

theorem toggles_are_involutions_witness:
  "splitlines ''ctrl-s\<newline>'' = ''ctrl-s'' # [] \<and> splitlines ''ctrl-h\<newline>a.txt'' = ''ctrl-h'' # [''a.txt'']
   \<and> yoink_handle_output linux_host yoink_SearchConfig (Some ''ctrl-s\<newline>'') False (operator_does [])
       = (Continue (yoink_SearchConfig\<lparr>case_sensitive := True\<rparr>), operator_does [])
   \<and> yoink_handle_output linux_host (yoink_SearchConfig\<lparr>case_sensitive := True\<rparr>)
         (Some ''ctrl-s\<newline>'') False (operator_does [])
       = (Continue yoink_SearchConfig, operator_does [])
   \<and> yoink_handle_output linux_host yoink_SearchConfig (Some ''ctrl-h\<newline>a.txt'') False (operator_does [])
       = (Continue (yoink_SearchConfig\<lparr>hidden_files := True\<rparr>), operator_does [])
   \<and> yoink_handle_output linux_host (yoink_SearchConfig\<lparr>hidden_files := True\<rparr>)
         (Some ''ctrl-h\<newline>a.txt'') False (operator_does [])
       = (Continue yoink_SearchConfig, operator_does [])"
proof -
  have s: "splitlines ''ctrl-s\<newline>'' = ''ctrl-s'' # []"
    by (simp add: splitlines_def py_linebreak_def)
  have h: "splitlines ''ctrl-h\<newline>a.txt'' = ''ctrl-h'' # [''a.txt'']"
    by (simp add: splitlines_def py_linebreak_def)
  have c: "case_sensitive yoink_SearchConfig = False" "hidden_files yoink_SearchConfig = False"
    by (simp_all add: yoink_SearchConfig_def)
  show ?thesis
    using s h toggles_are_involutions [OF s s h h, of linux_host yoink_SearchConfig False
        "operator_does []" False False False]
    by (simp add: c)
qed

end
